theory Spec2Isabelle
  imports Complex_Main
begin

section \<open>JavaScript values\<close>

text \<open>
  A JavaScript \<^verbatim>\<open>number\<close> is modelled as a mathematical real, extended with the three
  non-finite values that decide how the dashboard behaves on degenerate input: \<^verbatim>\<open>NaN\<close>,
  \<^verbatim>\<open>Infinity\<close> and \<^verbatim>\<open>-Infinity\<close>. The rounding error of IEEE-754 doubles and the sign of
  zero are not modelled: arithmetic on finite values is exact.
\<close>

datatype jsnum = Num real | NaN | PInf | NInf

text \<open>Unary minus.\<close>

fun jneg :: "jsnum \<Rightarrow> jsnum" where
  "jneg (Num a) = Num (- a)"
| "jneg NaN = NaN"
| "jneg PInf = NInf"
| "jneg NInf = PInf"

text \<open>\<^verbatim>\<open>a + b\<close> on numbers.\<close>

fun jadd :: "jsnum \<Rightarrow> jsnum \<Rightarrow> jsnum" where
  "jadd (Num a) (Num b) = Num (a + b)"
| "jadd NaN _ = NaN"
| "jadd _ NaN = NaN"
| "jadd PInf NInf = NaN"
| "jadd NInf PInf = NaN"
| "jadd PInf _ = PInf"
| "jadd _ PInf = PInf"
| "jadd NInf _ = NInf"
| "jadd _ NInf = NInf"

text \<open>\<^verbatim>\<open>a - b\<close>.\<close>

definition jsub :: "jsnum \<Rightarrow> jsnum \<Rightarrow> jsnum" where
  "jsub a b = jadd a (jneg b)"

text \<open>The sign of an infinite product or quotient: \<open>True\<close> is \<^verbatim>\<open>Infinity\<close>.\<close>

definition inf_of :: "bool \<Rightarrow> jsnum" where
  "inf_of pos = (if pos then PInf else NInf)"

text \<open>\<^verbatim>\<open>a * b\<close>: an infinity times zero is \<^verbatim>\<open>NaN\<close>.\<close>

fun jmul :: "jsnum \<Rightarrow> jsnum \<Rightarrow> jsnum" where
  "jmul (Num a) (Num b) = Num (a * b)"
| "jmul NaN _ = NaN"
| "jmul _ NaN = NaN"
| "jmul PInf (Num b) = (if b = 0 then NaN else inf_of (0 < b))"
| "jmul NInf (Num b) = (if b = 0 then NaN else inf_of (b < 0))"
| "jmul (Num a) PInf = (if a = 0 then NaN else inf_of (0 < a))"
| "jmul (Num a) NInf = (if a = 0 then NaN else inf_of (a < 0))"
| "jmul PInf PInf = PInf"
| "jmul NInf NInf = PInf"
| "jmul PInf NInf = NInf"
| "jmul NInf PInf = NInf"

text \<open>
  \<^verbatim>\<open>a / b\<close>: division by zero does not raise; it gives \<^verbatim>\<open>NaN\<close> for \<^verbatim>\<open>0/0\<close> and an infinity
  otherwise.
\<close>

fun jdiv :: "jsnum \<Rightarrow> jsnum \<Rightarrow> jsnum" where
  "jdiv (Num a) (Num b) =
     (if b \<noteq> 0 then Num (a / b) else if a = 0 then NaN else inf_of (0 < a))"
| "jdiv NaN _ = NaN"
| "jdiv _ NaN = NaN"
| "jdiv (Num a) PInf = Num 0"
| "jdiv (Num a) NInf = Num 0"
| "jdiv PInf (Num b) = inf_of (0 \<le> b)"
| "jdiv NInf (Num b) = inf_of (b < 0)"
| "jdiv PInf PInf = NaN"
| "jdiv PInf NInf = NaN"
| "jdiv NInf PInf = NaN"
| "jdiv NInf NInf = NaN"




text \<open>\<^verbatim>\<open>Math.round\<close>: the nearest integer, a tie going up; non-finite values are kept.\<close>

fun Math_round :: "jsnum \<Rightarrow> jsnum" where
  "Math_round (Num a) = Num (of_int \<lfloor>a + 1 / 2\<rfloor>)"
| "Math_round v = v"


text \<open>
  The values a field of a record or of a chart point can hold: a property that is missing
  reads as \<^verbatim>\<open>undefined\<close>. Strings are outside the declared type
  \<^verbatim>\<open>[key: string]: number\<close> of \<^verbatim>\<open>FinancialRecord\<close> and are not modelled.
\<close>

datatype jsval = Undefined | Null | Number jsnum

text \<open>\<^verbatim>\<open>ToNumber\<close>, applied by the arithmetic operators to their operands.\<close>

fun toNumber :: "jsval \<Rightarrow> jsnum" where
  "toNumber Undefined = NaN"
| "toNumber Null = Num 0"
| "toNumber (Number v) = v"

text \<open>
  \<^verbatim>\<open>interface FinancialRecord { Year: number; Revenue: number; ...; [key: string]: number }\<close>:
  an object read by property name; \<^verbatim>\<open>d[k]\<close> of a missing property is \<^verbatim>\<open>undefined\<close>.
\<close>

type_synonym FinancialRecord = "(string \<times> jsval) list"

definition getProp :: "FinancialRecord \<Rightarrow> string \<Rightarrow> jsval" where
  "getProp d k = (case map_of d k of None \<Rightarrow> Undefined | Some v \<Rightarrow> v)"

text \<open>\<^verbatim>\<open>arr[i]\<close>: reading past the end of an array gives \<^verbatim>\<open>undefined\<close>.\<close>

definition elem_at :: "jsval list \<Rightarrow> nat \<Rightarrow> jsval" where
  "elem_at xs i = (if i < length xs then xs ! i else Undefined)"

text \<open>\<^verbatim>\<open>arr[arr.length - 1]\<close>: index \<open>-1\<close> of an empty array is \<^verbatim>\<open>undefined\<close>.\<close>

definition at_last :: "jsval list \<Rightarrow> jsval" where
  "at_last xs = (if xs = [] then Undefined else last xs)"

text \<open>
  \<^verbatim>\<open>arr.reduce((a, b, i) => f(a, b, i), init)\<close>, the callback receiving the running index.
\<close>

fun reduce_from :: "('a \<Rightarrow> 'b \<Rightarrow> nat \<Rightarrow> 'a) \<Rightarrow> 'a \<Rightarrow> nat \<Rightarrow> 'b list \<Rightarrow> 'a" where
  "reduce_from f a i [] = a"
| "reduce_from f a i (b # bs) = reduce_from f (f a b i) (Suc i) bs"

definition reduce :: "('a \<Rightarrow> 'b \<Rightarrow> nat \<Rightarrow> 'a) \<Rightarrow> 'a \<Rightarrow> 'b list \<Rightarrow> 'a" where
  "reduce f init xs = reduce_from f init 0 xs"

section \<open>Trend fit\<close>

text \<open>
  The least-squares block that \<^verbatim>\<open>runJSForecast\<close> (App.tsx, lines 372 to 382) and
  \<^verbatim>\<open>runJSValuation\<close> (lines 541 to 549) both contain, over the arrays \<^verbatim>\<open>x\<close> and \<^verbatim>\<open>y\<close> mapped
  from the same \<^verbatim>\<open>data\<close>, with \<^verbatim>\<open>n = data.length\<close>:
  \<^verbatim>\<open>
  const sumX = x.reduce((a, b) => a + b, 0);
  const sumY = y.reduce((a, b) => a + b, 0);
  const sumXY = x.reduce((a, b, i) => a + b * y[i], 0);
  const sumXX = x.reduce((a, b) => a + b * b, 0);
  const slope = (n * sumXY - sumX * sumY) / (n * sumXX - sumX * sumX);
  const intercept = (sumY - slope * sumX) / n;
  \<close>
\<close>

definition sumX :: "jsval list \<Rightarrow> jsnum" where
  "sumX x = reduce (\<lambda>a b i. jadd a (toNumber b)) (Num 0) x"

definition sumY :: "jsval list \<Rightarrow> jsnum" where
  "sumY y = reduce (\<lambda>a b i. jadd a (toNumber b)) (Num 0) y"

definition sumXY :: "jsval list \<Rightarrow> jsval list \<Rightarrow> jsnum" where
  "sumXY x y = reduce (\<lambda>a b i. jadd a (jmul (toNumber b) (toNumber (elem_at y i)))) (Num 0) x"

definition sumXX :: "jsval list \<Rightarrow> jsnum" where
  "sumXX x = reduce (\<lambda>a b i. jadd a (jmul (toNumber b) (toNumber b))) (Num 0) x"

definition fit_slope :: "nat \<Rightarrow> jsval list \<Rightarrow> jsval list \<Rightarrow> jsnum" where
  "fit_slope n x y =
     jdiv (jsub (jmul (Num (real n)) (sumXY x y)) (jmul (sumX x) (sumY y)))
          (jsub (jmul (Num (real n)) (sumXX x)) (jmul (sumX x) (sumX x)))"

definition fit_intercept :: "nat \<Rightarrow> jsval list \<Rightarrow> jsval list \<Rightarrow> jsnum" where
  "fit_intercept n x y =
     jdiv (jsub (sumY y) (jmul (fit_slope n x y) (sumX x))) (Num (real n))"

text \<open>An array of finite numbers.\<close>

definition nums :: "real list \<Rightarrow> jsval list" where
  "nums xs = map (\<lambda>v. Number (Num v)) xs"

text \<open>
  The least-squares line as the specification words it, over the reals:
  \<open>slope = (n \<Sum>xy - \<Sum>x \<Sum>y) / (n \<Sum>x\<^sup>2 - (\<Sum>x)\<^sup>2)\<close> and
  \<open>intercept = (\<Sum>y - slope \<Sum>x) / n\<close>.
\<close>

definition spec_slope :: "real list \<Rightarrow> real list \<Rightarrow> real" where
  "spec_slope xs ys =
     (real (length xs) * (\<Sum>(u, v)\<leftarrow>zip xs ys. u * v) - sum_list xs * sum_list ys)
       / (real (length xs) * (\<Sum>v\<leftarrow>xs. v * v) - sum_list xs * sum_list xs)"

definition spec_intercept :: "real list \<Rightarrow> real list \<Rightarrow> real" where
  "spec_intercept xs ys = (sum_list ys - spec_slope xs ys * sum_list xs) / real (length xs)"

section \<open>Forecast: the native path\<close>

text \<open>
  One row of the chart series. A history row carries \<^verbatim>\<open>null\<close> in the forecast fields and
  \<^verbatim>\<open>Confidence: null\<close>; \<open>None\<close> is that \<^verbatim>\<open>null\<close>, \<open>Some (lo, hi)\<close> the tuple \<^verbatim>\<open>[lo, hi]\<close>.
\<close>

record ForecastPoint =
  Year :: jsval
  Historical :: jsval
  Forecast :: jsval
  High :: jsval
  Low :: jsval
  Confidence :: "(jsval \<times> jsval) option"

text \<open>The objects pushed onto \<^verbatim>\<open>futurePoints\<close>: \<^verbatim>\<open>{ Year, Forecast, High, Low }\<close>.\<close>

record FuturePoint =
  fpYear :: jsnum
  fpForecast :: jsnum
  fpHigh :: jsnum
  fpLow :: jsnum

text \<open>
  The body of the loop \<^verbatim>\<open>for (let i = 1; i <= forecastHorizon; i++)\<close> of \<^verbatim>\<open>runJSForecast\<close>,
  one definition per \<^verbatim>\<open>const\<close>. The horizon is an integer (the slider's \<^verbatim>\<open>parseInt\<close>) and is at
  least \<open>i \<ge> 1\<close> inside the loop; the sensitivity is a finite number of percent.
  \<^verbatim>\<open>
  const year = lastYear + i;
  const val = slope * year + intercept;
  const ratio = i / forecastHorizon;
  const currentSpreadPct = (forecastSensitivity / 100) * ratio;
  const high = val * (1 + currentSpreadPct);
  const low = val * (1 - currentSpreadPct);
  \<close>
\<close>

definition point_year :: "jsval \<Rightarrow> nat \<Rightarrow> jsnum" where
  "point_year lastYear i = jadd (toNumber lastYear) (Num (real i))"

definition point_val :: "jsnum \<Rightarrow> jsnum \<Rightarrow> jsval \<Rightarrow> nat \<Rightarrow> jsnum" where
  "point_val slope intercept lastYear i = jadd (jmul slope (point_year lastYear i)) intercept"

definition ratio :: "nat \<Rightarrow> nat \<Rightarrow> real" where
  "ratio forecastHorizon i = real i / real forecastHorizon"

definition currentSpreadPct :: "real \<Rightarrow> nat \<Rightarrow> nat \<Rightarrow> real" where
  "currentSpreadPct forecastSensitivity forecastHorizon i =
     (forecastSensitivity / 100) * ratio forecastHorizon i"

definition point_high :: "jsnum \<Rightarrow> real \<Rightarrow> nat \<Rightarrow> nat \<Rightarrow> jsnum" where
  "point_high val forecastSensitivity forecastHorizon i =
     jmul val (Num (1 + currentSpreadPct forecastSensitivity forecastHorizon i))"

definition point_low :: "jsnum \<Rightarrow> real \<Rightarrow> nat \<Rightarrow> nat \<Rightarrow> jsnum" where
  "point_low val forecastSensitivity forecastHorizon i =
     jmul val (Num (1 - currentSpreadPct forecastSensitivity forecastHorizon i))"

definition futurePoint :: "jsnum \<Rightarrow> jsnum \<Rightarrow> jsval \<Rightarrow> real \<Rightarrow> nat \<Rightarrow> nat \<Rightarrow> FuturePoint" where
  "futurePoint slope intercept lastYear forecastSensitivity forecastHorizon i =
     (let val = point_val slope intercept lastYear i in
      \<lparr> fpYear = point_year lastYear i,
        fpForecast = Math_round val,
        fpHigh = Math_round (point_high val forecastSensitivity forecastHorizon i),
        fpLow = Math_round (point_low val forecastSensitivity forecastHorizon i) \<rparr>)"

text \<open>The loop itself: \<open>i\<close> runs from 1 to the horizon, one point pushed per round.\<close>

definition futurePoints :: "jsnum \<Rightarrow> jsnum \<Rightarrow> jsval \<Rightarrow> real \<Rightarrow> nat \<Rightarrow> FuturePoint list" where
  "futurePoints slope intercept lastYear forecastSensitivity forecastHorizon =
     map (futurePoint slope intercept lastYear forecastSensitivity forecastHorizon)
       [1 ..< Suc forecastHorizon]"

text \<open>The three kinds of row of the merged series (App.tsx, lines 407 to 432).\<close>

definition history_row :: "string \<Rightarrow> FinancialRecord \<Rightarrow> ForecastPoint" where
  "history_row forecastMetric d =
     \<lparr> Year = getProp d ''Year'', Historical = getProp d forecastMetric,
       Forecast = Null, High = Null, Low = Null, Confidence = None \<rparr>"

definition junction_row :: "jsval \<Rightarrow> jsval \<Rightarrow> ForecastPoint" where
  "junction_row lastYear lastVal =
     \<lparr> Year = lastYear, Historical = lastVal, Forecast = lastVal,
       High = lastVal, Low = lastVal, Confidence = Some (lastVal, lastVal) \<rparr>"

definition future_row :: "FuturePoint \<Rightarrow> ForecastPoint" where
  "future_row p =
     \<lparr> Year = Number (fpYear p), Historical = Null, Forecast = Number (fpForecast p),
       High = Number (fpHigh p), Low = Number (fpLow p),
       Confidence = Some (Number (fpLow p), Number (fpHigh p)) \<rparr>"

text \<open>What an operation of the dashboard can raise.\<close>

datatype js_error = TypeError

text \<open>
  \<^verbatim>\<open>runJSForecast\<close>, up to the two state setters: the series it hands to
  \<^verbatim>\<open>setForecastData\<close>. The function has no check on the number of records. On an empty \<^verbatim>\<open>data\<close>
  the read \<^verbatim>\<open>data[data.length-1][forecastMetric]\<close> is a property access on \<^verbatim>\<open>undefined\<close>
  and throws before any state is set.
\<close>

definition runJSForecast :: "FinancialRecord list \<Rightarrow> string \<Rightarrow> nat \<Rightarrow> real \<Rightarrow> js_error + ForecastPoint list" where
  "runJSForecast data forecastMetric forecastHorizon forecastSensitivity =
     (let n = length data;
          x = map (\<lambda>d. getProp d ''Year'') data;
          y = map (\<lambda>d. getProp d forecastMetric) data;
          slope = fit_slope n x y;
          intercept = fit_intercept n x y;
          lastYear = at_last x;
          future = futurePoints slope intercept lastYear forecastSensitivity forecastHorizon
      in if data = [] then Inl TypeError
         else let lastVal = getProp (last data) forecastMetric
              in Inr (map (history_row forecastMetric) data
                      @ [junction_row lastYear lastVal]
                      @ map future_row future))"

section \<open>Forecast: the embedded Python script\<close>

text \<open>
  \<^verbatim>\<open>runForecast\<close> pastes \<^verbatim>\<open>JSON.stringify(data)\<close> into the source of a Python script.
  \<^verbatim>\<open>JSON.stringify\<close> leaves a property whose value is \<^verbatim>\<open>undefined\<close> out, writes a finite number
  as its literal, and writes \<^verbatim>\<open>null\<close> for \<^verbatim>\<open>null\<close>, \<^verbatim>\<open>NaN\<close> and the infinities.
\<close>

datatype json_text = Omitted | Literal real | JsonNull

fun stringify :: "jsval \<Rightarrow> json_text" where
  "stringify Undefined = Omitted"
| "stringify (Number (Num r)) = Literal r"
| "stringify _ = JsonNull"

text \<open>
  What the Python script can raise. \<^verbatim>\<open>null\<close> is not a Python name, so a \<^verbatim>\<open>null\<close> anywhere in the
  pasted literal makes the assignment \<^verbatim>\<open>data = ...\<close> raise \<^verbatim>\<open>NameError\<close>.
\<close>

datatype py_error = NameError | KeyError | PyTypeError | ZeroDivisionError

definition has_null :: "FinancialRecord \<Rightarrow> bool" where
  "has_null d = (\<exists>k \<in> set (map fst d). stringify (getProp d k) = JsonNull)"

text \<open>The Python dictionary read back from the literal: \<^verbatim>\<open>k in d\<close> and \<^verbatim>\<open>float(d[k])\<close>.\<close>

definition py_get :: "FinancialRecord \<Rightarrow> string \<Rightarrow> real option" where
  "py_get d k = (case stringify (getProp d k) of Literal r \<Rightarrow> Some r | _ \<Rightarrow> None)"

text \<open>\<^verbatim>\<open>years = [float(d['Year']) for d in data]\<close>: a record without \<^verbatim>\<open>Year\<close> raises.\<close>

fun py_years :: "FinancialRecord list \<Rightarrow> py_error + real list" where
  "py_years [] = Inr []"
| "py_years (d # ds) =
     (case py_get d ''Year'' of
        None \<Rightarrow> Inl KeyError
      | Some v \<Rightarrow> (case py_years ds of Inl e \<Rightarrow> Inl e | Inr vs \<Rightarrow> Inr (v # vs)))"

text \<open>\<^verbatim>\<open>values = [float(d[metric]) for d in data if metric in d]\<close>.\<close>

definition py_values :: "FinancialRecord list \<Rightarrow> string \<Rightarrow> real list" where
  "py_values data metric = List.map_filter (\<lambda>d. py_get d metric) data"

text \<open>Python's \<^verbatim>\<open>int(x)\<close> on a float: truncation towards zero.\<close>

definition py_int :: "real \<Rightarrow> int" where
  "py_int v = (if 0 \<le> v then \<lfloor>v\<rfloor> else \<lceil>v\<rceil>)"

text \<open>The entries of \<^verbatim>\<open>result["future"]\<close>.\<close>

record PyFuture =
  pyYear :: int
  pyForecast :: int
  pyHigh :: int
  pyLow :: int

datatype py_forecast_result = ForecastSuccess "PyFuture list" | ForecastFailure

text \<open>
  The body of \<^verbatim>\<open>for i, pred in enumerate(predictions)\<close>, with \<open>k = i + 1\<close> and
  \<^verbatim>\<open>len(predictions)\<close> equal to the horizon:
  \<^verbatim>\<open>
  ratio = (i + 1) / len(predictions)
  current_spread_pct = sensitivity * ratio
  high = pred * (1 + current_spread_pct)
  low = pred * (1 - current_spread_pct)
  predictions_high.append(int(high))
  predictions_low.append(int(low))
  \<close>
\<close>

definition py_future :: "real \<Rightarrow> real \<Rightarrow> int \<Rightarrow> real \<Rightarrow> nat \<Rightarrow> nat \<Rightarrow> PyFuture" where
  "py_future slope intercept last_year sensitivity horizon k =
     (let y = last_year + int k;
          pred = slope * real_of_int y + intercept;
          ratio = real k / real horizon;
          current_spread_pct = sensitivity * ratio;
          high = pred * (1 + current_spread_pct);
          low = pred * (1 - current_spread_pct)
      in \<lparr> pyYear = y, pyForecast = py_int pred, pyHigh = py_int high, pyLow = py_int low \<rparr>)"

text \<open>
  The forecast script (App.tsx, lines 272 to 320). \<^verbatim>\<open>np.polyfit\<close> is a library function that
  is not part of the repository: it is the parameter \<open>polyfit\<close>, returning the pair
  \<^verbatim>\<open>(slope, intercept)\<close>; it raises when its two arrays differ in length.
\<close>

definition forecast_script ::
  "(real list \<Rightarrow> real list \<Rightarrow> real \<times> real) \<Rightarrow> FinancialRecord list \<Rightarrow> string \<Rightarrow> nat \<Rightarrow> real
     \<Rightarrow> py_error + py_forecast_result" where
  "forecast_script polyfit data metric horizon forecastSensitivity =
     (if \<exists>d \<in> set data. has_null d then Inl NameError
      else case py_years data of
        Inl e \<Rightarrow> Inl e
      | Inr years \<Rightarrow>
          let sensitivity = forecastSensitivity / 100;
              values = py_values data metric
          in if length values > 1 then
               if length years \<noteq> length values then Inl PyTypeError
               else let (slope, intercept) = polyfit years values;
                        last_year = py_int (last years)
                    in Inr (ForecastSuccess
                         (map (py_future slope intercept last_year sensitivity horizon)
                            [1 ..< Suc horizon]))
             else Inr ForecastFailure)"

text \<open>The rows built from \<^verbatim>\<open>output.future\<close> (App.tsx, lines 345 to 352).\<close>

definition python_row :: "PyFuture \<Rightarrow> ForecastPoint" where
  "python_row p =
     \<lparr> Year = Number (Num (real_of_int (pyYear p))), Historical = Null,
       Forecast = Number (Num (real_of_int (pyForecast p))),
       High = Number (Num (real_of_int (pyHigh p))),
       Low = Number (Num (real_of_int (pyLow p))),
       Confidence = Some (Number (Num (real_of_int (pyLow p))),
                          Number (Num (real_of_int (pyHigh p)))) \<rparr>"

text \<open>
  The \<^verbatim>\<open>merged\<close> array of the success branch (lines 325 to 353); reading
  \<^verbatim>\<open>data[data.length - 1].Year\<close> of an empty \<^verbatim>\<open>data\<close> throws.
\<close>

definition merged :: "FinancialRecord list \<Rightarrow> string \<Rightarrow> PyFuture list \<Rightarrow> js_error + ForecastPoint list" where
  "merged data forecastMetric future =
     (if data = [] then Inl TypeError
      else let lastYear = getProp (last data) ''Year'';
               lastVal = getProp (last data) forecastMetric
           in Inr (map (history_row forecastMetric) data
                   @ [junction_row lastYear lastVal]
                   @ map python_row future))"

text \<open>
  The series the Python path hands to \<^verbatim>\<open>setForecastData\<close>, when it gets that far: the script
  succeeded and the merge did not throw.
\<close>

definition python_series ::
  "(real list \<Rightarrow> real list \<Rightarrow> real \<times> real) \<Rightarrow> FinancialRecord list \<Rightarrow> string \<Rightarrow> nat \<Rightarrow> real
     \<Rightarrow> ForecastPoint list option" where
  "python_series polyfit data metric horizon sensitivity =
     (case forecast_script polyfit data metric horizon sensitivity of
        Inr (ForecastSuccess future) \<Rightarrow>
          (case merged data metric future of Inr series \<Rightarrow> Some series | Inl e \<Rightarrow> None)
      | _ \<Rightarrow> None)"

text \<open>
  The exact least-squares line, which \<^verbatim>\<open>np.polyfit(x, y, 1)\<close> computes up to rounding error:
  the instance of \<open>polyfit\<close> under which the two paths fit the same line.
\<close>

definition least_squares :: "real list \<Rightarrow> real list \<Rightarrow> real \<times> real" where
  "least_squares xs ys = (spec_slope xs ys, spec_intercept xs ys)"



section \<open>Forecast: the effect on the application state\<close>

datatype python_status = Loading | Ready | Error

datatype compute_source = PythonNumPy | JSFallback

text \<open>
  The lines written to the system console by \<^verbatim>\<open>addLog\<close>, one constructor per message
  template, with the values the template interpolates.
\<close>

datatype log_line =
    StartingForecast string real
  | ForecastCompleted
  | ExecutionError
  | KernelUnavailable
  | Separator
  | InitiatingScan
  | IntegrityWarn nat string
  | IntegrityNote jsval
  | DataQualityExcellent
  | DataQualityWarning int
  | RecordsIndexed nat

text \<open>
  The React state the forecast effect reads and writes, each \<^verbatim>\<open>useState\<close> variable under
  its name with the prefix \<open>s_\<close>; \<open>s_pyodide\<close> is whether \<^verbatim>\<open>window.pyodide\<close> is set.
\<close>

record forecast_state =
  s_data :: "FinancialRecord list"
  s_pythonStatus :: python_status
  s_pyodide :: bool
  s_forecastMetric :: string
  s_forecastHorizon :: nat
  s_forecastSensitivity :: real
  s_forecastData :: "ForecastPoint list"
  s_computeSource :: "compute_source option"
  s_pythonLogs :: "log_line list"

definition addLog :: "log_line \<Rightarrow> forecast_state \<Rightarrow> forecast_state" where
  "addLog msg st = st\<lparr>s_pythonLogs := s_pythonLogs st @ [msg]\<rparr>"

text \<open>
  The state-level \<^verbatim>\<open>runJSForecast\<close>: \<^verbatim>\<open>setForecastData(chartData)\<close> and
  \<^verbatim>\<open>setComputeSource('JS Fallback')\<close>. The first component is the exception that escapes,
  if any; the state is then as it was when it was thrown.
\<close>

definition runJSForecast_effect :: "forecast_state \<Rightarrow> js_error option \<times> forecast_state" where
  "runJSForecast_effect st =
     (case runJSForecast (s_data st) (s_forecastMetric st) (s_forecastHorizon st) (s_forecastSensitivity st) of
        Inl e \<Rightarrow> (Some e, st)
      | Inr chartData \<Rightarrow>
          (None, st\<lparr>s_forecastData := chartData, s_computeSource := Some JSFallback\<rparr>))"

text \<open>
  \<^verbatim>\<open>runForecast\<close> (App.tsx, lines 268 to 369). Anything thrown inside the \<^verbatim>\<open>try\<close>, by the
  script or by the merge, is caught and answered with the native path; a result with
  \<^verbatim>\<open>success\<close> false is not an exception and falls through the \<^verbatim>\<open>if (output.success)\<close>.
\<close>

definition runForecast ::
  "(real list \<Rightarrow> real list \<Rightarrow> real \<times> real) \<Rightarrow> forecast_state \<Rightarrow> js_error option \<times> forecast_state" where
  "runForecast polyfit st =
     (if s_pythonStatus st = Ready \<and> s_pyodide st then
        let st1 = addLog (StartingForecast (s_forecastMetric st) (s_forecastSensitivity st)) st;
            caught = runJSForecast_effect (addLog ExecutionError st1)
        in case forecast_script polyfit (s_data st) (s_forecastMetric st) (s_forecastHorizon st)
                  (s_forecastSensitivity st) of
             Inl e \<Rightarrow> caught
           | Inr ForecastFailure \<Rightarrow> (None, st1)
           | Inr (ForecastSuccess future) \<Rightarrow>
               (case merged (s_data st) (s_forecastMetric st) future of
                  Inl e \<Rightarrow> caught
                | Inr series \<Rightarrow>
                    (None, addLog ForecastCompleted
                       (st1\<lparr>s_forecastData := series, s_computeSource := Some PythonNumPy\<rparr>)))
      else if s_pythonStatus st \<noteq> Loading then
        runJSForecast_effect (if s_pythonStatus st = Error then addLog KernelUnavailable st else st)
      else (None, st))"

section \<open>Valuation\<close>

text \<open>Whether a finite number is an integer.\<close>

definition is_integral :: "real \<Rightarrow> bool" where
  "is_integral e = (real_of_int \<lfloor>e\<rfloor> = e)"

text \<open>
  \<^verbatim>\<open>Math.pow(base, exponent)\<close>, following the cases of the language standard: a \<^verbatim>\<open>NaN\<close>
  exponent, a zero exponent, a \<^verbatim>\<open>NaN\<close> base, the infinite bases, base zero, the infinite
  exponents, and a negative base with a fractional exponent, which is \<^verbatim>\<open>NaN\<close>.
\<close>

fun Math_pow :: "jsnum \<Rightarrow> jsnum \<Rightarrow> jsnum" where
  "Math_pow _ NaN = NaN"
| "Math_pow b (Num e) =
     (if e = 0 then Num 1
      else case b of
        NaN \<Rightarrow> NaN
      | PInf \<Rightarrow> (if 0 < e then PInf else Num 0)
      | NInf \<Rightarrow> (if 0 < e then (if is_integral e \<and> odd \<lfloor>e\<rfloor> then NInf else PInf) else Num 0)
      | Num a \<Rightarrow>
          (if a = 0 then (if 0 < e then Num 0 else PInf)
           else if is_integral e then Num (power_int a \<lfloor>e\<rfloor>)
           else if 0 < a then Num (a powr e)
           else NaN))"
| "Math_pow b PInf =
     (case b of
        NaN \<Rightarrow> NaN
      | Num a \<Rightarrow> (if 1 < \<bar>a\<bar> then PInf else if \<bar>a\<bar> = 1 then NaN else Num 0)
      | _ \<Rightarrow> PInf)"
| "Math_pow b NInf =
     (case b of
        NaN \<Rightarrow> NaN
      | Num a \<Rightarrow> (if 1 < \<bar>a\<bar> then Num 0 else if \<bar>a\<bar> = 1 then NaN else PInf)
      | _ \<Rightarrow> Num 0)"




text \<open>
  An entry of the \<^verbatim>\<open>waterfall\<close> array. The first two entries are written without the
  property \<^verbatim>\<open>isTotal\<close>, which is \<open>None\<close>.
\<close>

record bridge_entry =
  name :: string
  "value" :: jsnum
  isTotal :: "bool option"
  contribution :: string



text \<open>
  \<^verbatim>\<open>runJSValuation\<close> (App.tsx, lines 538 to 597), one definition per stage. The four
  assumptions come from number inputs and are finite; \<open>r\<close> and \<open>g\<close> are
  \<^verbatim>\<open>wacc / 100\<close> and \<^verbatim>\<open>termGrowth / 100\<close>.
  \<^verbatim>\<open>
  for (let i = 1; i <= 5; i++) {
      const fcf = slope * (lastYear + i) + intercept;
      futureFCFs.push(fcf);
      discountedSum += fcf / Math.pow(1 + r, i);
  }
  \<close>
\<close>

definition js_fcf :: "jsnum \<Rightarrow> jsnum \<Rightarrow> jsval \<Rightarrow> nat \<Rightarrow> jsnum" where
  "js_fcf slope intercept lastYear i =
     jadd (jmul slope (jadd (toNumber lastYear) (Num (real i)))) intercept"

definition js_futureFCFs :: "jsnum \<Rightarrow> jsnum \<Rightarrow> jsval \<Rightarrow> jsnum list" where
  "js_futureFCFs slope intercept lastYear = map (js_fcf slope intercept lastYear) [1 ..< 6]"

definition js_discountedSum :: "jsnum \<Rightarrow> jsnum \<Rightarrow> jsval \<Rightarrow> real \<Rightarrow> jsnum" where
  "js_discountedSum slope intercept lastYear r =
     foldl (\<lambda>discountedSum i.
              jadd discountedSum
                (jdiv (js_fcf slope intercept lastYear i) (Math_pow (Num (1 + r)) (Num (real i)))))
       (Num 0) [1 ..< 6]"

text \<open>
  \<^verbatim>\<open>
  if (r > g) { terminalValue = (futureFCFs[4] * (1 + g)) / (r - g); }
  else { terminalValue = futureFCFs[4] * 15; }
  \<close>
\<close>

definition js_terminalValue :: "jsnum list \<Rightarrow> real \<Rightarrow> real \<Rightarrow> jsnum" where
  "js_terminalValue futureFCFs r g =
     (if r > g then jdiv (jmul (futureFCFs ! 4) (Num (1 + g))) (Num (r - g))
      else jmul (futureFCFs ! 4) (Num 15))"

text \<open>The fit and the projection of \<^verbatim>\<open>runJSValuation\<close>: the array \<^verbatim>\<open>futureFCFs\<close>.\<close>

definition valuation_futureFCFs :: "FinancialRecord list \<Rightarrow> jsnum list" where
  "valuation_futureFCFs data =
     (let n = length data;
          x = map (\<lambda>d. getProp d ''Year'') data;
          y = map (\<lambda>d. getProp d ''Free Cash Flow'') data
      in js_futureFCFs (fit_slope n x y) (fit_intercept n x y) (at_last x))"

definition valuation_discountedSum :: "FinancialRecord list \<Rightarrow> real \<Rightarrow> jsnum" where
  "valuation_discountedSum data wacc =
     (let n = length data;
          x = map (\<lambda>d. getProp d ''Year'') data;
          y = map (\<lambda>d. getProp d ''Free Cash Flow'') data
      in js_discountedSum (fit_slope n x y) (fit_intercept n x y) (at_last x) (wacc / 100))"

definition valuation_discountedTV :: "FinancialRecord list \<Rightarrow> real \<Rightarrow> real \<Rightarrow> jsnum" where
  "valuation_discountedTV data wacc termGrowth =
     (let r = wacc / 100;
          g = termGrowth / 100;
          terminalValue = js_terminalValue (valuation_futureFCFs data) r g
      in jdiv terminalValue (Math_pow (Num (1 + r)) (Num 5)))"








section \<open>Integrity scan\<close>













section \<open>Strategic commentary\<close>







section \<open>Sums over finite numbers\<close>

lemma reduce_from_add:
  "reduce_from (\<lambda>a b i. jadd a (toNumber b)) (Num a) k (nums xs) = Num (a + sum_list xs)"
  by (induction xs arbitrary: a k) (simp_all add: nums_def)

lemma reduce_from_sq:
  "reduce_from (\<lambda>a b i. jadd a (jmul (toNumber b) (toNumber b))) (Num a) k (nums xs)
     = Num (a + (\<Sum>v\<leftarrow>xs. v * v))"
  by (induction xs arbitrary: a k) (simp_all add: nums_def)

lemma at_nums: "i < length ys \<Longrightarrow> elem_at (nums ys) i = Number (Num (ys ! i))"
  by (simp add: elem_at_def nums_def)

lemma reduce_from_prod:
  "k + length xs \<le> length ys \<Longrightarrow>
   reduce_from (\<lambda>a b i. jadd a (jmul (toNumber b) (toNumber (elem_at (nums ys) i)))) (Num a) k (nums xs)
     = Num (a + (\<Sum>(u, v)\<leftarrow>zip xs (drop k ys). u * v))"
proof (induction xs arbitrary: a k)
  case Nil
  then show ?case by (simp add: nums_def)
next
  case (Cons x xs)
  from Cons.prems have k: "k < length ys" and rest: "Suc k + length xs \<le> length ys"
    by simp_all
  from k have split: "drop k ys = ys ! k # drop (Suc k) ys"
    by (simp add: Cons_nth_drop_Suc)
  have "reduce_from (\<lambda>a b i. jadd a (jmul (toNumber b) (toNumber (elem_at (nums ys) i))))
          (Num a) k (nums (x # xs))
        = reduce_from (\<lambda>a b i. jadd a (jmul (toNumber b) (toNumber (elem_at (nums ys) i))))
          (Num (a + x * (ys ! k))) (Suc k) (nums xs)"
    using k by (simp add: nums_def elem_at_def)
  also have "\<dots> = Num (a + x * (ys ! k) + (\<Sum>(u, v)\<leftarrow>zip xs (drop (Suc k) ys). u * v))"
    using Cons.IH [OF rest] .
  finally show ?case by (simp add: split add.assoc)
qed

lemma sumX_nums: "sumX (nums xs) = Num (sum_list xs)"
  using reduce_from_add [of 0 0 xs] by (simp add: sumX_def reduce_def)

lemma sumY_nums: "sumY (nums ys) = Num (sum_list ys)"
  using reduce_from_add [of 0 0 ys] by (simp add: sumY_def reduce_def)

lemma sumXX_nums: "sumXX (nums xs) = Num (\<Sum>v\<leftarrow>xs. v * v)"
  using reduce_from_sq [of 0 0 xs] by (simp add: sumXX_def reduce_def)

lemma sumXY_nums:
  "length xs = length ys \<Longrightarrow> sumXY (nums xs) (nums ys) = Num (\<Sum>(u, v)\<leftarrow>zip xs ys. u * v)"
  using reduce_from_prod [of 0 xs ys 0] by (simp add: sumXY_def reduce_def)

section \<open>The fitted line\<close>

lemma sum_sq_dev:
  fixes m :: real
  shows "(\<Sum>v\<leftarrow>xs. (v - m) * (v - m))
     = (\<Sum>v\<leftarrow>xs. v * v) - 2 * m * sum_list xs + real (length xs) * (m * m)"
  by (induction xs) (simp_all add: algebra_simps)

lemma sq_dev_nonneg:
  fixes m :: real
  shows "0 \<le> (\<Sum>v\<leftarrow>xs. (v - m) * (v - m))"
  by (induction xs) simp_all

lemma sq_dev_zero:
  fixes m :: real
  shows "(\<Sum>v\<leftarrow>xs. (v - m) * (v - m)) = 0 \<Longrightarrow> v \<in> set xs \<Longrightarrow> v = m"
proof (induction xs)
  case Nil
  then show ?case by simp
next
  case (Cons a xs)
  have "0 \<le> (a - m) * (a - m)" by simp
  with Cons.prems(1) sq_dev_nonneg [of m xs]
  have "(a - m) * (a - m) = 0" and "(\<Sum>v\<leftarrow>xs. (v - m) * (v - m)) = 0"
    by (simp_all add: add_nonneg_eq_0_iff)
  with Cons.IH Cons.prems(2) show ?case by auto
qed

lemma fit_denominator_pos:
  fixes xs :: "real list"
  assumes d: "distinct xs" and n: "2 \<le> length xs"
  shows "0 < real (length xs) * (\<Sum>v\<leftarrow>xs. v * v) - sum_list xs * sum_list xs"
proof -
  define n' where "n' = real (length xs)"
  define m where "m = sum_list xs / n'"
  have n'pos: "0 < n'" using n by (cases xs) (simp_all add: n'_def)
  have nonneg: "0 \<le> (\<Sum>v\<leftarrow>xs. (v - m) * (v - m))"
    by (rule sq_dev_nonneg)
  have "(\<Sum>v\<leftarrow>xs. (v - m) * (v - m)) \<noteq> 0"
  proof
    assume z: "(\<Sum>v\<leftarrow>xs. (v - m) * (v - m)) = 0"
    have all: "\<forall>v\<in>set xs. v = m" using sq_dev_zero [OF z] by simp
    obtain a b rest where xs: "xs = a # b # rest"
      using n by (cases xs; cases "tl xs") auto
    with all have "a = b" by simp
    with d xs show False by simp
  qed
  with nonneg have pos: "0 < (\<Sum>v\<leftarrow>xs. (v - m) * (v - m))" by simp
  have "n' * (\<Sum>v\<leftarrow>xs. (v - m) * (v - m))
        = n' * (\<Sum>v\<leftarrow>xs. v * v) - sum_list xs * sum_list xs"
    using n'pos unfolding sum_sq_dev m_def n'_def [symmetric]
    by (simp add: field_simps)
  moreover have "0 < n' * (\<Sum>v\<leftarrow>xs. (v - m) * (v - m))"
    using n'pos pos by simp
  ultimately show ?thesis by (simp add: n'_def)
qed

lemma fit_slope_nums:
  assumes "distinct xs" "2 \<le> length xs" "length ys = length xs"
  shows "fit_slope (length xs) (nums xs) (nums ys) = Num (spec_slope xs ys)"
  using fit_denominator_pos [OF assms(1,2)] assms(3)
  by (simp add: fit_slope_def spec_slope_def sumX_nums sumY_nums sumXX_nums sumXY_nums jsub_def)

lemma fit_intercept_nums:
  assumes "distinct xs" "2 \<le> length xs" "length ys = length xs"
  shows "fit_intercept (length xs) (nums xs) (nums ys) = Num (spec_intercept xs ys)"
proof -
  have "length xs \<noteq> 0" using assms(2) by auto
  then show ?thesis
    by (simp add: fit_intercept_def fit_slope_nums [OF assms] spec_intercept_def
        sumX_nums sumY_nums jsub_def)
qed

lemma line_sums:
  fixes xs :: "real list"
  shows "sum_list (map (\<lambda>x. 2 * x + 1) xs) = 2 * sum_list xs + real (length xs)"
    and "(\<Sum>(u, v)\<leftarrow>zip xs (map (\<lambda>x. 2 * x + 1) xs). u * v) = 2 * (\<Sum>v\<leftarrow>xs. v * v) + sum_list xs"
  by (induction xs) (simp_all add: algebra_simps)

lemma spec_line:
  assumes "distinct xs" "2 \<le> length xs"
  shows "spec_slope xs (map (\<lambda>x. 2 * x + 1) xs) = 2"
    and "spec_intercept xs (map (\<lambda>x. 2 * x + 1) xs) = 1"
proof -
  let ?D = "real (length xs) * (\<Sum>v\<leftarrow>xs. v * v) - sum_list xs * sum_list xs"
  have D: "?D \<noteq> 0" using fit_denominator_pos [OF assms] by simp
  have num: "real (length xs) * (2 * (\<Sum>v\<leftarrow>xs. v * v) + sum_list xs)
          - sum_list xs * (2 * sum_list xs + real (length xs)) = 2 * ?D"
    by (simp add: algebra_simps)
  have "spec_slope xs (map (\<lambda>x. 2 * x + 1) xs) = (2 * ?D) / ?D"
    unfolding spec_slope_def line_sums num ..
  also have "\<dots> = 2" by (rule nonzero_mult_div_cancel_right [OF D])
  finally show s: "spec_slope xs (map (\<lambda>x. 2 * x + 1) xs) = 2" .
  have "length xs \<noteq> 0" using assms(2) by auto
  then show "spec_intercept xs (map (\<lambda>x. 2 * x + 1) xs) = 1"
    by (simp add: spec_intercept_def s line_sums)
qed

text \<open>
  Claim C1. For year and value arrays of equal length \<open>n \<ge> 2\<close> with distinct years, the
  denominator \<open>n \<Sum>x\<^sup>2 - (\<Sum>x)\<^sup>2\<close> is not zero and the fit block of \<^verbatim>\<open>runJSForecast\<close> and
  \<^verbatim>\<open>runJSValuation\<close> returns the finite numbers
  \<open>slope = (n \<Sum>xy - \<Sum>x \<Sum>y) / (n \<Sum>x\<^sup>2 - (\<Sum>x)\<^sup>2)\<close> and
  \<open>intercept = (\<Sum>y - slope \<Sum>x) / n\<close>; for points on the line \<open>y = 2 x + 1\<close> it returns
  slope 2 and intercept 1.
\<close>

theorem trend_fit_ols:
  assumes "distinct xs" and "2 \<le> length xs" and "length ys = length xs"
  shows "real (length xs) * (\<Sum>v\<leftarrow>xs. v * v) - sum_list xs * sum_list xs \<noteq> 0
    \<and> fit_slope (length xs) (nums xs) (nums ys) = Num (spec_slope xs ys)
    \<and> fit_intercept (length xs) (nums xs) (nums ys) = Num (spec_intercept xs ys)
    \<and> (ys = map (\<lambda>x. 2 * x + 1) xs \<longrightarrow>
         fit_slope (length xs) (nums xs) (nums ys) = Num 2
       \<and> fit_intercept (length xs) (nums xs) (nums ys) = Num 1)"
proof -
  have "real (length xs) * (\<Sum>v\<leftarrow>xs. v * v) - sum_list xs * sum_list xs \<noteq> 0"
    using fit_denominator_pos [OF assms(1,2)] by simp
  moreover note fit_slope_nums [OF assms] fit_intercept_nums [OF assms]
  moreover have "ys = map (\<lambda>x. 2 * x + 1) xs \<Longrightarrow> spec_slope xs ys = 2 \<and> spec_intercept xs ys = 1"
    using spec_line [OF assms(1,2)] by simp
  ultimately show ?thesis by auto
qed

theorem trend_fit_ols_witness:
  "fit_slope 3 (nums [2020, 2021, 2022]) (nums [4041, 4043, 4045]) = Num 2
 \<and> fit_intercept 3 (nums [2020, 2021, 2022]) (nums [4041, 4043, 4045]) = Num 1
 \<and> fit_slope 3 (nums [2020, 2021, 2022]) (nums [100, 110, 120]) = Num 10
 \<and> fit_intercept 3 (nums [2020, 2021, 2022]) (nums [100, 110, 120]) = Num (- 20100)"
  using trend_fit_ols [of "[2020, 2021, 2022]" "[4041, 4043, 4045]"]
        trend_fit_ols [of "[2020, 2021, 2022]" "[100, 110, 120]"]
  by (simp add: spec_slope_def spec_intercept_def numeral_3_eq_3)

section \<open>Evaluating the two forecast paths\<close>

lemmas forecast_eval = runJSForecast_def Let_def getProp_def fit_slope_def fit_intercept_def
    sumX_def sumY_def sumXY_def sumXX_def reduce_def elem_at_def jsub_def at_last_def futurePoints_def futurePoint_def
    point_val_def point_year_def point_high_def point_low_def history_row_def junction_row_def future_row_def upt_rec
    currentSpreadPct_def ratio_def inf_of_def

lemmas script_eval = forecast_script_def has_null_def py_get_def py_values_def List.map_filter_def
    getProp_def Let_def py_future_def py_int_def least_squares_def spec_slope_def spec_intercept_def upt_rec
    merged_def python_series_def history_row_def junction_row_def python_row_def

text \<open>
  Claim C7. With fewer than two present values the forecast is to fail with an
  insufficient-data error. The script of the Python path does report failure on a single row,
  whatever \<open>polyfit\<close> is; the native path has no such check: on the same row it divides zero
  by zero and returns a complete series whose five projected rows are \<^verbatim>\<open>NaN\<close>.
\<close>

theorem js_forecast_single_row:
  "runJSForecast [[(''Year'', Number (Num 2020)), (''Revenue'', Number (Num 100))]] ''Revenue'' 5 10
     = Inr [ \<lparr>Year = Number (Num 2020), Historical = Number (Num 100),
               Forecast = Null, High = Null, Low = Null, Confidence = None\<rparr>,
             \<lparr>Year = Number (Num 2020), Historical = Number (Num 100),
               Forecast = Number (Num 100), High = Number (Num 100), Low = Number (Num 100),
               Confidence = Some (Number (Num 100), Number (Num 100))\<rparr>,
             \<lparr>Year = Number (Num 2021), Historical = Null, Forecast = Number NaN,
               High = Number NaN, Low = Number NaN, Confidence = Some (Number NaN, Number NaN)\<rparr>,
             \<lparr>Year = Number (Num 2022), Historical = Null, Forecast = Number NaN,
               High = Number NaN, Low = Number NaN, Confidence = Some (Number NaN, Number NaN)\<rparr>,
             \<lparr>Year = Number (Num 2023), Historical = Null, Forecast = Number NaN,
               High = Number NaN, Low = Number NaN, Confidence = Some (Number NaN, Number NaN)\<rparr>,
             \<lparr>Year = Number (Num 2024), Historical = Null, Forecast = Number NaN,
               High = Number NaN, Low = Number NaN, Confidence = Some (Number NaN, Number NaN)\<rparr>,
             \<lparr>Year = Number (Num 2025), Historical = Null, Forecast = Number NaN,
               High = Number NaN, Low = Number NaN, Confidence = Some (Number NaN, Number NaN)\<rparr> ]
   \<and> forecast_script polyfit [[(''Year'', Number (Num 2020)), (''Revenue'', Number (Num 100))]]
         ''Revenue'' 5 10 = Inr ForecastFailure"
  by (simp add: forecast_eval script_eval)

text \<open>
  Claim C3. The two paths are to give identical numbers on identical input. On the two
  records 2020: 100 and 2021: 101, horizon 2 and sensitivity 10, both fit the line
  \<open>y = x - 1920\<close>, and the lower band of 2022 is \<open>102 * 0.95 = 96.9\<close>: the native path
  stores \<^verbatim>\<open>Math.round\<close> of it, 97, the Python path \<^verbatim>\<open>int\<close> of it, 96.
\<close>

theorem paths_round_differently:
  "map Low (case runJSForecast
       [[(''Year'', Number (Num 2020)), (''Revenue'', Number (Num 100))],
        [(''Year'', Number (Num 2021)), (''Revenue'', Number (Num 101))]] ''Revenue'' 2 10 of Inr series \<Rightarrow> series | Inl e \<Rightarrow> [])
     = [Null, Null, Number (Num 101), Number (Num 97), Number (Num 93)]
   \<and> map Low (case python_series least_squares
       [[(''Year'', Number (Num 2020)), (''Revenue'', Number (Num 100))],
        [(''Year'', Number (Num 2021)), (''Revenue'', Number (Num 101))]] ''Revenue'' 2 10 of Some series \<Rightarrow> series | None \<Rightarrow> [])
     = [Null, Null, Number (Num 101), Number (Num 96), Number (Num 92)]"
  by (simp add: forecast_eval script_eval)

section \<open>A failed script leaves the stored series alone\<close>

lemma few_values_failure:
  assumes "\<not> (\<exists>d \<in> set data. has_null d)" and "py_years data = Inr years"
      and "length (py_values data metric) \<le> 1"
  shows "forecast_script polyfit data metric horizon sensitivity = Inr ForecastFailure"
  using assms by (simp add: forecast_script_def Let_def)

text \<open>
  Claim C10. When the Python path runs and its script reports failure, \<^verbatim>\<open>runForecast\<close>
  throws nothing and does not call the native path: the stored series and the compute source
  are what they were, and the only new console line is the one announcing the job.
\<close>

theorem python_failure_keeps_state:
  assumes "s_pythonStatus st = Ready" and "s_pyodide st"
      and "forecast_script polyfit (s_data st) (s_forecastMetric st) (s_forecastHorizon st)
             (s_forecastSensitivity st) = Inr ForecastFailure"
  shows "fst (runForecast polyfit st) = None
       \<and> s_forecastData (snd (runForecast polyfit st)) = s_forecastData st
       \<and> s_computeSource (snd (runForecast polyfit st)) = s_computeSource st
       \<and> s_pythonLogs (snd (runForecast polyfit st))
           = s_pythonLogs st @ [StartingForecast (s_forecastMetric st) (s_forecastSensitivity st)]"
  using assms by (simp add: runForecast_def addLog_def Let_def)

theorem python_failure_keeps_state_witness:
  "fst (runForecast least_squares
     \<lparr> s_data = [[(''Year'', Number (Num 2020)), (''Revenue'', Number (Num 100))]],
       s_pythonStatus = Ready, s_pyodide = True, s_forecastMetric = ''Revenue'',
       s_forecastHorizon = 5, s_forecastSensitivity = 10,
       s_forecastData = [junction_row (Number (Num 2019)) (Number (Num 90))],
       s_computeSource = Some PythonNumPy, s_pythonLogs = [] \<rparr>) = None
 \<and> s_forecastData (snd (runForecast least_squares
     \<lparr> s_data = [[(''Year'', Number (Num 2020)), (''Revenue'', Number (Num 100))]],
       s_pythonStatus = Ready, s_pyodide = True, s_forecastMetric = ''Revenue'',
       s_forecastHorizon = 5, s_forecastSensitivity = 10,
       s_forecastData = [junction_row (Number (Num 2019)) (Number (Num 90))],
       s_computeSource = Some PythonNumPy, s_pythonLogs = [] \<rparr>))
     = [junction_row (Number (Num 2019)) (Number (Num 90))]
 \<and> s_computeSource (snd (runForecast least_squares
     \<lparr> s_data = [[(''Year'', Number (Num 2020)), (''Revenue'', Number (Num 100))]],
       s_pythonStatus = Ready, s_pyodide = True, s_forecastMetric = ''Revenue'',
       s_forecastHorizon = 5, s_forecastSensitivity = 10,
       s_forecastData = [junction_row (Number (Num 2019)) (Number (Num 90))],
       s_computeSource = Some PythonNumPy, s_pythonLogs = [] \<rparr>)) = Some PythonNumPy"
proof -
  let ?st = "\<lparr> s_data = [[(''Year'', Number (Num 2020)), (''Revenue'', Number (Num 100))]],
       s_pythonStatus = Ready, s_pyodide = True, s_forecastMetric = ''Revenue'',
       s_forecastHorizon = 5, s_forecastSensitivity = 10,
       s_forecastData = [junction_row (Number (Num 2019)) (Number (Num 90))],
       s_computeSource = Some PythonNumPy, s_pythonLogs = [] \<rparr>"
  have ready: "s_pythonStatus ?st = Ready" and loaded: "s_pyodide ?st" by simp_all
  have failure: "forecast_script least_squares (s_data ?st) (s_forecastMetric ?st)
      (s_forecastHorizon ?st) (s_forecastSensitivity ?st) = Inr ForecastFailure"
    by (simp add: script_eval)
  from python_failure_keeps_state [OF ready loaded failure] show ?thesis by simp
qed

section \<open>The shape of the merged series\<close>

text \<open>
  The two ways a series reaches \<^verbatim>\<open>setForecastData\<close>: from the script's result when the kernel
  is ready, from the native path when it is not.
\<close>

lemma runForecast_stores_python_series:
  assumes "s_pythonStatus st = Ready" and "s_pyodide st"
      and "python_series polyfit (s_data st) (s_forecastMetric st) (s_forecastHorizon st)
             (s_forecastSensitivity st) = Some series"
  shows "runForecast polyfit st =
           (None, addLog ForecastCompleted
              ((addLog (StartingForecast (s_forecastMetric st) (s_forecastSensitivity st)) st)
                 \<lparr>s_forecastData := series, s_computeSource := Some PythonNumPy\<rparr>))"
  using assms
  by (auto simp add: runForecast_def python_series_def Let_def
      split: sum.splits py_forecast_result.splits)

lemma runForecast_stores_js_series:
  assumes "s_pythonStatus st = Error"
      and "runJSForecast (s_data st) (s_forecastMetric st) (s_forecastHorizon st)
             (s_forecastSensitivity st) = Inr series"
  shows "runForecast polyfit st =
           (None, (addLog KernelUnavailable st)
                    \<lparr>s_forecastData := series, s_computeSource := Some JSFallback\<rparr>)"
  using assms by (simp add: runForecast_def runJSForecast_effect_def addLog_def)



lemma length_futurePoints [simp]: "length (futurePoints a b y s h) = h"
  by (simp add: futurePoints_def)













section \<open>The widening band\<close>










section \<open>The terminal value\<close>





section \<open>The valuation bridge\<close>








lemma js_discountedSum_num:
  assumes "1 + r \<noteq> 0"
  shows "\<exists>u. js_discountedSum (Num a) (Num b) (Number (Num y)) r = Num u"
  using assms
  by (simp add: js_discountedSum_def js_fcf_def upt_rec is_integral_def eval_nat_numeral)

lemma js_terminalValue_num:
  "\<exists>t. js_terminalValue (js_futureFCFs (Num a) (Num b) (Number (Num y))) r g = Num t"
  by (simp add: js_terminalValue_def js_futureFCFs_def js_fcf_def upt_rec eval_nat_numeral)

lemma js_valuation_finite:
  assumes years: "map (\<lambda>d. getProp d ''Year'') data = nums xs"
      and flows: "map (\<lambda>d. getProp d ''Free Cash Flow'') data = nums ys"
      and "distinct xs" and "2 \<le> length xs" and "wacc \<noteq> - 100"
  shows "\<exists>u v. valuation_discountedSum data wacc = Num u
             \<and> valuation_discountedTV data wacc termGrowth = Num v"
proof -
  have "length (map (\<lambda>d. getProp d ''Year'') data) = length (nums xs)"
    and "length (map (\<lambda>d. getProp d ''Free Cash Flow'') data) = length (nums ys)"
    by (simp_all only: years flows)
  then have len: "length data = length xs" "length ys = length xs"
    by (simp_all add: nums_def)
  from assms(4) have ne: "xs \<noteq> []" by auto
  have slope: "fit_slope (length data) (nums xs) (nums ys) = Num (spec_slope xs ys)"
    and intercept: "fit_intercept (length data) (nums xs) (nums ys) = Num (spec_intercept xs ys)"
    unfolding len(1) using fit_slope_nums fit_intercept_nums assms(3,4) len(2) by simp_all
  have lastYear: "at_last (nums xs) = Number (Num (last xs))"
    using ne by (simp add: at_last_def nums_def last_map)
  have r: "1 + wacc / 100 \<noteq> 0" using assms(5) by (simp add: field_simps)
  from js_discountedSum_num [OF r] obtain u
    where "js_discountedSum (Num (spec_slope xs ys)) (Num (spec_intercept xs ys))
             (Number (Num (last xs))) (wacc / 100) = Num u" by blast
  then have u: "valuation_discountedSum data wacc = Num u"
    by (simp add: valuation_discountedSum_def Let_def years flows slope intercept lastYear)
  from js_terminalValue_num obtain t
    where "js_terminalValue (js_futureFCFs (Num (spec_slope xs ys)) (Num (spec_intercept xs ys))
             (Number (Num (last xs)))) (wacc / 100) (termGrowth / 100) = Num t" by blast
  then have "valuation_discountedTV data wacc termGrowth
      = jdiv (Num t) (Math_pow (Num (1 + wacc / 100)) (Num 5))"
    by (simp add: valuation_discountedTV_def valuation_futureFCFs_def Let_def years flows
        slope intercept lastYear)
  also have "\<dots> = Num (t / (1 + wacc / 100) ^ 5)"
    using r by (simp add: is_integral_def)
  finally show ?thesis using u by blast
qed


section \<open>The integrity score\<close>











section \<open>The growth rate of the commentary\<close>








end
